theory Spec2Isabelle
  imports Main
begin

section \<open>The offline operation queue of GreenSentinel Citoyen\<close>

text \<open>
  A shallow embedding of \<^verbatim>\<open>src/services/offline/queueManager.js\<close> together with the
  parts of the API services it replays (\<^verbatim>\<open>submitReport\<close>, \<^verbatim>\<open>updateReport\<close>,
  \<^verbatim>\<open>registerForEvent\<close>) and \<^verbatim>\<open>isAuthenticated\<close> of the API client.

  Everything the module reads from its surroundings is an explicit argument: the draw of
  \<^verbatim>\<open>Math.random().toString(36)\<close>, the value of \<^verbatim>\<open>Date.now()\<close>, whether a
  \<^verbatim>\<open>localStorage.setItem\<close> goes through, the stored authentication token and what
  \<^verbatim>\<open>apiRequest\<close> does for each replayed item. The module's two variables and the
  storage slot \<^verbatim>\<open>gs_operation_queue\<close> form the state that every function returns
  updated. A processing run is taken as one uninterrupted step: the only code that runs
  between its awaits is the executor it awaits.
\<close>

subsection \<open>Data model\<close>

datatype status = Pending | Completed | Failed

text \<open>
  A queue item as \<^verbatim>\<open>queueOperation\<close> builds it. The payload \<^verbatim>\<open>data\<close> is opaque to the
  queue, hence a type parameter. \<^verbatim>\<open>lastError\<close> is absent until the first failed attempt.
\<close>

record 'd queue_item =
  item_id :: string
  resource :: string
  operation :: string
  data :: 'd
  timestamp :: int
  attempts :: nat
  status :: status
  lastError :: "string option"

text \<open>
  What \<^verbatim>\<open>localStorage.getItem(QUEUE_STORAGE_KEY)\<close> holds. \<^verbatim>\<open>JSON.stringify\<close> followed
  by \<^verbatim>\<open>JSON.parse\<close> is the identity on a list of items, so an array is stored as the
  list itself. \<open>Absent\<close> stands for a missing key and for the empty string (both falsy),
  \<open>Unparsable\<close> for text on which \<^verbatim>\<open>JSON.parse\<close> throws, \<open>Json_null\<close> for the text
  \<^verbatim>\<open>null\<close>, the one stored value on which both \<^verbatim>\<open>queue.push\<close> and
  \<^verbatim>\<open>queue.length\<close> throw a TypeError.
\<close>

datatype 'd stored = Absent | Unparsable | Json_null | Json_array "'d queue_item list"

text \<open>
  The module state: \<^verbatim>\<open>let isProcessing\<close>, \<^verbatim>\<open>let networkListenerActive\<close>, the number of
  \<^verbatim>\<open>online\<close> listeners registered on \<^verbatim>\<open>window\<close>, and the storage slot.
\<close>

record 'd qstate =
  isProcessing :: bool
  networkListenerActive :: bool
  online_listeners :: nat
  storage :: "'d stored"

text \<open>
  A thrown value, as far as this code looks at it: its \<^verbatim>\<open>message\<close> and its
  \<^verbatim>\<open>status\<close>. An \<^verbatim>\<open>Error\<close> object has no \<^verbatim>\<open>status\<close>; the object literal that
  \<^verbatim>\<open>apiRequest\<close> throws for a response that is not ok carries the HTTP status.
  Messages are taken to be strings.
\<close>

datatype thrown = Thrown (thrown_message: string) (thrown_status: "nat option")

definition Error :: "string \<Rightarrow> thrown" where
  "Error m = Thrown m None"

text \<open>The object \<^verbatim>\<open>queueOperation\<close> returns.\<close>

record 'd response =
  success :: bool
  resp_id :: string
  message :: string
  queuedOperation :: "'d queue_item"
  offline :: bool

text \<open>What one call of \<^verbatim>\<open>queueOperation\<close> reads from its surroundings.\<close>

record enq_env =
  rnd :: string
  now :: int
  write_ok :: bool

subsection \<open>Reading and writing the queue\<close>

text \<open>
  \<^verbatim>\<open>getQueue\<close>: a falsy string gives the empty array, a parse error is caught and gives
  the empty array, anything else is what \<^verbatim>\<open>JSON.parse\<close> returns (\<open>None\<close> is the
  JavaScript value \<^verbatim>\<open>null\<close>).
\<close>

definition getQueue :: "'d stored \<Rightarrow> 'd queue_item list option" where
  "getQueue st =
     (case st of
        Absent \<Rightarrow> Some []
      | Unparsable \<Rightarrow> Some []
      | Json_null \<Rightarrow> None
      | Json_array q \<Rightarrow> Some q)"

text \<open>
  \<^verbatim>\<open>saveQueue\<close>: the write is inside a \<^verbatim>\<open>try\<close> whose \<^verbatim>\<open>catch\<close> only logs, so a
  failing \<^verbatim>\<open>setItem\<close> leaves the slot as it was and nothing is thrown.
\<close>

definition saveQueue :: "bool \<Rightarrow> 'd queue_item list \<Rightarrow> 'd qstate \<Rightarrow> 'd qstate" where
  "saveQueue ok queue s = (if ok then s\<lparr>storage := Json_array queue\<rparr> else s)"

definition setupNetworkListener :: "'d qstate \<Rightarrow> 'd qstate" where
  "setupNetworkListener s =
     (if networkListenerActive s then s
      else s\<lparr>online_listeners := Suc (online_listeners s), networkListenerActive := True\<rparr>)"

text \<open>
  \<^verbatim>\<open>generateId\<close>: the argument is the text of \<^verbatim>\<open>Math.random().toString(36)\<close>, such as
  \<^verbatim>\<open>0.k3j9x0q2m1c\<close>; \<^verbatim>\<open>substr(2, 9)\<close> keeps at most nine characters from index 2.
\<close>

definition generateId :: "string \<Rightarrow> string" where
  "generateId r = ''queue_'' @ take 9 (drop 2 r)"

definition new_item :: "enq_env \<Rightarrow> string \<Rightarrow> string \<Rightarrow> 'd \<Rightarrow> 'd queue_item" where
  "new_item env res opn d =
     \<lparr>item_id = generateId (rnd env), resource = res, operation = opn, data = d,
      timestamp = now env, attempts = 0, status = Pending, lastError = None\<rparr>"

definition queued_response :: "'d queue_item \<Rightarrow> 'd response" where
  "queued_response queueItem =
     \<lparr>success = True, resp_id = item_id queueItem,
      message = ''Operation queued for processing when online'',
      queuedOperation = queueItem, offline = True\<rparr>"

text \<open>
  \<^verbatim>\<open>queueOperation\<close>. On \<^verbatim>\<open>null\<close> the call \<^verbatim>\<open>queue.push\<close> throws; the \<^verbatim>\<open>catch\<close>
  replaces whatever was thrown by a fresh \<^verbatim>\<open>Error\<close>. Nothing else in the body throws.
\<close>

definition queueOperation ::
  "enq_env \<Rightarrow> string \<Rightarrow> string \<Rightarrow> 'd \<Rightarrow> 'd qstate \<Rightarrow> (thrown + 'd response) \<times> 'd qstate" where
  "queueOperation env res opn d s =
     (case getQueue (storage s) of
        None \<Rightarrow> (Inl (Error ''Failed to queue operation for offline processing''), s)
      | Some queue \<Rightarrow>
          (let queueItem = new_item env res opn d;
               s1 = saveQueue (write_ok env) (queue @ [queueItem]) s;
               s2 = setupNetworkListener s1
           in (Inr (queued_response queueItem), s2)))"

subsection \<open>Replaying one item\<close>

text \<open>
  What the awaited service call meets for one replayed item: \<^verbatim>\<open>apiRequest\<close> returns a
  response, or \<^verbatim>\<open>apiRequest\<close> throws, or the service throws on its own before the
  request or outside the inner \<^verbatim>\<open>try\<close> (a payload without the expected fields, a photo
  that cannot be compressed).
\<close>

datatype remote = Responds | Rejects thrown | Fails_locally thrown

text \<open>
  \<^verbatim>\<open>submitReport\<close> and \<^verbatim>\<open>registerForEvent\<close> fall back to \<^verbatim>\<open>queueOperation\<close> when
  the request fails for lack of connectivity, so a replay also carries what that call
  would read and the payload it would queue.
\<close>

record 'd attempt_env =
  remote :: remote
  requeue_env :: enq_env
  requeue_data :: 'd

text \<open>\<^verbatim>\<open>String.prototype.includes\<close>.\<close>

fun js_includes :: "string \<Rightarrow> string \<Rightarrow> bool" where
  "js_includes [] sub = (sub = [])"
| "js_includes (c # cs) sub = (take (length sub) (c # cs) = sub \<or> js_includes cs sub)"

definition submitReport :: "'d attempt_env \<Rightarrow> 'd qstate \<Rightarrow> (thrown + unit) \<times> 'd qstate" where
  "submitReport env s =
     (case remote env of
        Fails_locally e \<Rightarrow> (Inl e, s)
      | Responds \<Rightarrow> (Inr (), s)
      | Rejects e \<Rightarrow>
          if js_includes (thrown_message e) ''network'' \<or> thrown_status e = Some 503
          then (case queueOperation (requeue_env env) ''reports'' ''create'' (requeue_data env) s of
                  (Inl e', s') \<Rightarrow> (Inl e', s')
                | (Inr r, s') \<Rightarrow> (Inr (), s'))
          else (Inl e, s))"

definition updateReport :: "'d attempt_env \<Rightarrow> 'd qstate \<Rightarrow> (thrown + unit) \<times> 'd qstate" where
  "updateReport env s =
     (case remote env of
        Fails_locally e \<Rightarrow> (Inl e, s)
      | Responds \<Rightarrow> (Inr (), s)
      | Rejects e \<Rightarrow> (Inl e, s))"

definition registerForEvent :: "'d attempt_env \<Rightarrow> 'd qstate \<Rightarrow> (thrown + unit) \<times> 'd qstate" where
  "registerForEvent env s =
     (case remote env of
        Fails_locally e \<Rightarrow> (Inl e, s)
      | Responds \<Rightarrow> (Inr (), s)
      | Rejects e \<Rightarrow>
          if js_includes (thrown_message e) ''network'' \<or> thrown_status e = Some 503
          then (case queueOperation (requeue_env env) ''events'' ''register'' (requeue_data env) s of
                  (Inl e', s') \<Rightarrow> (Inl e', s')
                | (Inr r, s') \<Rightarrow> (Inr (), s'))
          else (Inl e, s))"

text \<open>
  \<^verbatim>\<open>processQueueItem\<close>: the first \<^verbatim>\<open>switch\<close> picks the module by \<^verbatim>\<open>resource\<close> (the
  dynamic imports resolve, the modules being part of the application), the second picks
  the method by the text \<^verbatim>\<open>resource/operation\<close>. The \<^verbatim>\<open>catch\<close> logs and rethrows.
  Every value thrown here is an object with a \<^verbatim>\<open>message\<close>.
\<close>

definition processQueueItem ::
  "'d attempt_env \<Rightarrow> 'd queue_item \<Rightarrow> 'd qstate \<Rightarrow> (thrown + unit) \<times> 'd qstate" where
  "processQueueItem env item s =
     (if resource item \<noteq> ''reports'' \<and> resource item \<noteq> ''events'' \<and> resource item \<noteq> ''users''
      then (Inl (Error (''Unknown resource: '' @ resource item)), s)
      else if resource item @ ''/'' @ operation item = ''reports/create'' then submitReport env s
      else if resource item @ ''/'' @ operation item = ''reports/update'' then updateReport env s
      else if resource item @ ''/'' @ operation item = ''events/register'' then registerForEvent env s
      else (Inl (Error (''Unknown operation: '' @ resource item @ ''/'' @ operation item)), s))"

subsection \<open>The processing run\<close>

text \<open>
  The variables of the batch loop: the part of the in-memory array already visited (with
  the updates made to its items), the two counters, the module state, and a trace of the
  calls of \<^verbatim>\<open>processQueueItem\<close>: the item passed and how the call ended (\<open>None\<close> when
  it resolved, the thrown value when it rejected).
\<close>

record 'd pass =
  queue_done :: "'d queue_item list"
  successCount :: nat
  failureCount :: nat
  trace :: "('d queue_item \<times> thrown option) list"
  pass_state :: "'d qstate"

text \<open>One iteration of the \<^verbatim>\<open>for\<close> loop.\<close>

definition loop_body :: "'d attempt_env \<Rightarrow> 'd queue_item \<Rightarrow> 'd pass \<Rightarrow> 'd pass" where
  "loop_body env item a =
     (if status item = Completed then a\<lparr>queue_done := queue_done a @ [item]\<rparr>
      else
        (case processQueueItem env item (pass_state a) of
           (Inr u, s') \<Rightarrow>
             a\<lparr>queue_done := queue_done a @ [item\<lparr>status := Completed\<rparr>],
               successCount := Suc (successCount a),
               trace := trace a @ [(item, None)],
               pass_state := s'\<rparr>
         | (Inl e, s') \<Rightarrow>
             (let item1 = item\<lparr>attempts := Suc (attempts item),
                               lastError := Some (thrown_message e)\<rparr>
              in if attempts item1 \<ge> 3
                 then a\<lparr>queue_done := queue_done a @ [item1\<lparr>status := Failed\<rparr>],
                        failureCount := Suc (failureCount a),
                        trace := trace a @ [(item, Some e)],
                        pass_state := s'\<rparr>
                 else a\<lparr>queue_done := queue_done a @ [item1],
                        trace := trace a @ [(item, Some e)],
                        pass_state := s'\<rparr>)))"

fun for_loop :: "(nat \<Rightarrow> 'd attempt_env) \<Rightarrow> nat \<Rightarrow> 'd queue_item list \<Rightarrow> 'd pass \<Rightarrow> 'd pass" where
  "for_loop env i [] a = a"
| "for_loop env i (item # rest) a = for_loop env (Suc i) rest (loop_body (env i) item a)"

text \<open>What one call of \<^verbatim>\<open>processQueue\<close> reads from its surroundings.\<close>

record 'd run_env =
  auth_token :: "string option"
  attempt :: "nat \<Rightarrow> 'd attempt_env"
  sweep_now :: int
  sweep_write_ok :: bool

text \<open>\<^verbatim>\<open>isAuthenticated\<close>: \<^verbatim>\<open>Boolean\<close> of the stored token, false for a missing or empty one.\<close>

definition isAuthenticated :: "string option \<Rightarrow> bool" where
  "isAuthenticated tok = (case tok of None \<Rightarrow> False | Some t \<Rightarrow> t \<noteq> [])"

text \<open>
  The four shapes of the object a run returns: \<^verbatim>\<open>{processed: 0, skipped: true}\<close>,
  \<^verbatim>\<open>{processed: 0, message: 'Queue is empty'}\<close>, \<^verbatim>\<open>{processed, failed, remaining}\<close> and
  \<^verbatim>\<open>{error}\<close>.
\<close>

datatype run_result = Skipped | Queue_empty | Summary nat nat nat | Run_error string

definition run_loop :: "'d run_env \<Rightarrow> 'd queue_item list \<Rightarrow> 'd qstate \<Rightarrow> 'd pass" where
  "run_loop w queue s =
     for_loop (attempt w) 0 queue
       \<lparr>queue_done = [], successCount = 0, failureCount = 0, trace = [], pass_state = s\<rparr>"

text \<open>The predicate of the sweep: the items \<^verbatim>\<open>queue.filter\<close> keeps.\<close>

definition kept :: "int \<Rightarrow> 'd queue_item \<Rightarrow> bool" where
  "kept sweep_time item =
     (status item \<noteq> Completed \<or> timestamp item > sweep_time - 24 * 60 * 60 * 1000)"

text \<open>
  \<^verbatim>\<open>processQueue\<close>. On a stored \<^verbatim>\<open>null\<close>, \<^verbatim>\<open>queue.length\<close> throws inside the outer
  \<^verbatim>\<open>try\<close>; the \<^verbatim>\<open>catch\<close> returns the message and \<^verbatim>\<open>finally\<close> clears the flag.
\<close>

definition processQueue :: "'d run_env \<Rightarrow> 'd qstate \<Rightarrow> run_result \<times> 'd qstate" where
  "processQueue w s =
     (if isProcessing s \<or> \<not> isAuthenticated (auth_token w) then (Skipped, s)
      else
        (let s1 = s\<lparr>isProcessing := True\<rparr> in
         case getQueue (storage s1) of
           None \<Rightarrow>
             (Run_error ''Cannot read properties of null (reading 'length')'',
              s1\<lparr>isProcessing := False\<rparr>)
         | Some queue \<Rightarrow>
             if length queue = 0 then (Queue_empty, s1\<lparr>isProcessing := False\<rparr>)
             else
               (let p = run_loop w queue s1;
                    filteredQueue = filter (kept (sweep_now w)) (queue_done p);
                    s2 = saveQueue (sweep_write_ok w) filteredQueue (pass_state p)
                in (Summary (successCount p) (failureCount p)
                      (length (filter (\<lambda>item. status item = Pending) filteredQueue)),
                    s2\<lparr>isProcessing := False\<rparr>))))"

subsection \<open>The per-item rule in the words of the specification\<close>

text \<open>
  What identifies a queued intent: the fields that neither the processor nor the sweep
  ever writes.
\<close>

definition intent :: "'d queue_item \<Rightarrow> string \<times> string \<times> string \<times> 'd \<times> int" where
  "intent item = (item_id item, resource item, operation item, data item, timestamp item)"

text \<open>
  The rule for one attempted item: on success the status becomes completed; on failure the
  attempt counter goes up by one, the reason is recorded, and at three attempts the status
  becomes failed, otherwise it stays as it was.
\<close>

fun spec_settle :: "'d queue_item \<Rightarrow> thrown option \<Rightarrow> 'd queue_item" where
  "spec_settle item None = item\<lparr>status := Completed\<rparr>"
| "spec_settle item (Some e) =
     item\<lparr>attempts := attempts item + 1, lastError := Some (thrown_message e),
          status := (if attempts item + 1 \<ge> 3 then Failed else status item)\<rparr>"

text \<open>
  The rule for a whole pass, given the outcomes of the executor calls in the order they
  were made: completed items are passed over, every other item takes the next outcome.
\<close>

fun spec_pass :: "'d queue_item list \<Rightarrow> thrown option list \<Rightarrow> 'd queue_item list" where
  "spec_pass [] outcomes = []"
| "spec_pass (item # rest) outcomes =
     (if status item = Completed then item # spec_pass rest outcomes
      else (case outcomes of
              [] \<Rightarrow> item # rest
            | oc # ocs \<Rightarrow> spec_settle item oc # spec_pass rest ocs))"

subsection \<open>Concrete inputs\<close>

text \<open>
  The two draws \<^verbatim>\<open>0.qc6wf58hfrf\<close> and \<^verbatim>\<open>0.qc6wf58hfrs\<close> are the base-36 texts of the
  adjacent doubles 0.7316293847561235 and 0.7316293847561236; \<^verbatim>\<open>0.4fzzzxjylrx\<close> is
  that of 0.123456789. Times are milliseconds since the epoch.
\<close>

definition st_empty :: "string qstate" where
  "st_empty =
     \<lparr>isProcessing = False, networkListenerActive = False, online_listeners = 0,
      storage = Absent\<rparr>"

definition enq1 :: enq_env where
  "enq1 = \<lparr>rnd = ''0.qc6wf58hfrf'', now = 1700000000000, write_ok = True\<rparr>"

definition enq2 :: enq_env where
  "enq2 = \<lparr>rnd = ''0.qc6wf58hfrs'', now = 1700000005000, write_ok = True\<rparr>"

definition enq_full :: enq_env where
  "enq_full = \<lparr>rnd = ''0.4fzzzxjylrx'', now = 1700000009000, write_ok = False\<rparr>"

definition item_a :: "string queue_item" where
  "item_a =
     \<lparr>item_id = ''queue_qc6wf58hf'', resource = ''reports'', operation = ''create'',
      data = ''fire report'', timestamp = 1700000000000, attempts = 0, status = Pending,
      lastError = None\<rparr>"

definition st_one :: "string qstate" where
  "st_one =
     \<lparr>isProcessing = False, networkListenerActive = True, online_listeners = 1,
      storage = Json_array [item_a]\<rparr>"

definition world :: "remote \<Rightarrow> int \<Rightarrow> string run_env" where
  "world r t =
     \<lparr>auth_token = Some ''token'',
      attempt = (\<lambda>i. \<lparr>remote = r, requeue_env = enq2, requeue_data = ''fire report''\<rparr>),
      sweep_now = t, sweep_write_ok = True\<rparr>"

definition mixed_world :: "string run_env" where
  "mixed_world =
     \<lparr>auth_token = Some ''token'',
      attempt = (\<lambda>i. \<lparr>remote = (if i = 0 then Rejects (Thrown ''Internal Server Error'' (Some 500))
                                   else Responds),
                        requeue_env = enq2, requeue_data = ''fire report''\<rparr>),
      sweep_now = 1700000600000, sweep_write_ok = True\<rparr>"

definition item_w :: "string queue_item" where
  "item_w =
     \<lparr>item_id = ''queue_9x2k4m7pq'', resource = ''widgets'', operation = ''create'',
      data = ''widget'', timestamp = 1700000001000, attempts = 0, status = Pending,
      lastError = None\<rparr>"

definition item_e :: "string queue_item" where
  "item_e =
     \<lparr>item_id = ''queue_b81zq0c3d'', resource = ''events'', operation = ''register'',
      data = ''event 7'', timestamp = 1700000002000, attempts = 0, status = Pending,
      lastError = None\<rparr>"

definition server_error :: remote where
  "server_error = Rejects (Thrown ''Internal Server Error'' (Some 500))"

section \<open>Properties\<close>

subsection \<open>Invariants of the batch loop\<close>

lemma loop_body_trace:
  "\<exists>oc. trace (loop_body env item a) =
          trace a @ (if status item = Completed then [] else [(item, oc)]) \<and>
        queue_done (loop_body env item a) =
          queue_done a @ [if status item = Completed then item else spec_settle item oc]"
  by (cases "processQueueItem env item (pass_state a)"; cases "fst (processQueueItem env item (pass_state a))")
     (auto simp: loop_body_def Let_def)

lemma for_loop_trace:
  "\<exists>t. trace (for_loop env i q a) = trace a @ t \<and>
       map fst t = filter (\<lambda>item. status item \<noteq> Completed) q \<and>
       queue_done (for_loop env i q a) = queue_done a @ spec_pass q (map snd t)"
proof (induction q arbitrary: i a)
  case Nil
  show ?case by simp
next
  case (Cons item rest)
  obtain oc where
    b: "trace (loop_body (env i) item a) =
          trace a @ (if status item = Completed then [] else [(item, oc)])"
       "queue_done (loop_body (env i) item a) =
          queue_done a @ [if status item = Completed then item else spec_settle item oc]"
    using loop_body_trace [of "env i" item a] by blast
  obtain t where
    r: "trace (for_loop env (Suc i) rest (loop_body (env i) item a)) =
          trace (loop_body (env i) item a) @ t"
       "map fst t = filter (\<lambda>item. status item \<noteq> Completed) rest"
       "queue_done (for_loop env (Suc i) rest (loop_body (env i) item a)) =
          queue_done (loop_body (env i) item a) @ spec_pass rest (map snd t)"
    using Cons.IH [of "Suc i" "loop_body (env i) item a"] by blast
  show ?case
  proof (cases "status item = Completed")
    case True
    with b r show ?thesis by simp
  next
    case False
    with b r have
      "trace (for_loop env i (item # rest) a) = trace a @ ((item, oc) # t) \<and>
       map fst ((item, oc) # t) = filter (\<lambda>item. status item \<noteq> Completed) (item # rest) \<and>
       queue_done (for_loop env i (item # rest) a) =
         queue_done a @ spec_pass (item # rest) (map snd ((item, oc) # t))"
      by simp
    then show ?thesis by blast
  qed
qed

lemma run_loop_trace:
  "map fst (trace (run_loop w queue s)) = filter (\<lambda>item. status item \<noteq> Completed) queue \<and>
   queue_done (run_loop w queue s) = spec_pass queue (map snd (trace (run_loop w queue s)))"
  using for_loop_trace [of "attempt w" 0 queue
      "\<lparr>queue_done = [], successCount = 0, failureCount = 0, trace = [], pass_state = s\<rparr>"]
  by (auto simp: run_loop_def)

lemma spec_settle_intent: "intent (spec_settle item oc) = intent item"
  by (cases oc) (simp_all add: intent_def)

lemma spec_pass_intent: "map intent (spec_pass q ocs) = map intent q"
  by (induction q arbitrary: ocs) (simp_all add: spec_settle_intent split: list.split)

lemma queueOperation_storage:
  "getQueue (storage s) = Some x \<Longrightarrow>
   \<exists>extra. getQueue (storage (snd (queueOperation env res opn d s))) = Some (x @ extra)"
  by (auto simp: queueOperation_def saveQueue_def setupNetworkListener_def Let_def getQueue_def)

lemma submitReport_storage:
  "getQueue (storage s) = Some x \<Longrightarrow>
   \<exists>extra. getQueue (storage (snd (submitReport env s))) = Some (x @ extra)"
  using queueOperation_storage [of s x "requeue_env env" "''reports''" "''create''" "requeue_data env"]
  by (auto simp: submitReport_def split: remote.split prod.split sum.split)

lemma registerForEvent_storage:
  "getQueue (storage s) = Some x \<Longrightarrow>
   \<exists>extra. getQueue (storage (snd (registerForEvent env s))) = Some (x @ extra)"
  using queueOperation_storage [of s x "requeue_env env" "''events''" "''register''" "requeue_data env"]
  by (auto simp: registerForEvent_def split: remote.split prod.split sum.split)

lemma updateReport_storage: "snd (updateReport env s) = s"
  by (simp add: updateReport_def split: remote.split)

lemma processQueueItem_storage:
  "getQueue (storage s) = Some x \<Longrightarrow>
   \<exists>extra. getQueue (storage (snd (processQueueItem env item s))) = Some (x @ extra)"
  by (simp add: processQueueItem_def submitReport_storage registerForEvent_storage
      updateReport_storage)

lemma loop_body_storage:
  "getQueue (storage (pass_state a)) = Some x \<Longrightarrow>
   \<exists>extra. getQueue (storage (pass_state (loop_body env item a))) = Some (x @ extra)"
  using processQueueItem_storage [of "pass_state a" x env item]
  by (auto simp: loop_body_def Let_def split: prod.split sum.split)

lemma for_loop_storage:
  "getQueue (storage (pass_state a)) = Some x \<Longrightarrow>
   \<exists>extra. getQueue (storage (pass_state (for_loop env i q a))) = Some (x @ extra)"
proof (induction q arbitrary: i a x)
  case Nil
  then show ?case by simp
next
  case (Cons item rest)
  from loop_body_storage [OF Cons.prems, of "env i" item]
  obtain e1 where
    "getQueue (storage (pass_state (loop_body (env i) item a))) = Some (x @ e1)" by blast
  from Cons.IH [OF this, of "Suc i"]
  obtain e2 where
    "getQueue (storage (pass_state (for_loop env (Suc i) rest (loop_body (env i) item a)))) =
       Some ((x @ e1) @ e2)" by blast
  then have "getQueue (storage (pass_state (for_loop env i (item # rest) a))) =
       Some (x @ (e1 @ e2))" by simp
  then show ?case by blast
qed

lemma run_loop_storage:
  "getQueue (storage s) = Some x \<Longrightarrow>
   \<exists>extra. getQueue (storage (pass_state (run_loop w queue s))) = Some (x @ extra)"
  using for_loop_storage [of
      "\<lparr>queue_done = [], successCount = 0, failureCount = 0, trace = [], pass_state = s\<rparr>"
      x "attempt w" 0 queue]
  by (simp add: run_loop_def)

lemma run_loop_nil:
  "run_loop w [] s =
   \<lparr>queue_done = [], successCount = 0, failureCount = 0, trace = [], pass_state = s\<rparr>"
  by (simp add: run_loop_def)

lemma processQueue_started:
  "\<not> isProcessing s \<Longrightarrow> isAuthenticated (auth_token w) \<Longrightarrow>
   getQueue (storage s) = Some queue \<Longrightarrow> queue \<noteq> [] \<Longrightarrow>
   processQueue w s =
     (Summary (successCount (run_loop w queue (s\<lparr>isProcessing := True\<rparr>)))
        (failureCount (run_loop w queue (s\<lparr>isProcessing := True\<rparr>)))
        (length (filter (\<lambda>item. status item = Pending)
           (filter (kept (sweep_now w))
              (queue_done (run_loop w queue (s\<lparr>isProcessing := True\<rparr>)))))),
      (saveQueue (sweep_write_ok w)
         (filter (kept (sweep_now w)) (queue_done (run_loop w queue (s\<lparr>isProcessing := True\<rparr>))))
         (pass_state (run_loop w queue (s\<lparr>isProcessing := True\<rparr>))))
      \<lparr>isProcessing := False\<rparr>)"
  by (simp add: processQueue_def Let_def)

lemma processQueue_empty:
  "\<not> isProcessing s \<Longrightarrow> isAuthenticated (auth_token w) \<Longrightarrow>
   getQueue (storage s) = Some [] \<Longrightarrow> processQueue w s = (Queue_empty, s)"
  by (simp add: processQueue_def Let_def)

subsection \<open>Enqueueing\<close>

text \<open>
  Against claim C2 as stated. A write that fails: the call made with \<open>enq_full\<close> on an
  empty store returns the success-shaped response although \<^verbatim>\<open>setItem\<close> threw.
\<close>

theorem enqueue_write_failure_reports_success:
  "\<not> write_ok enq_full \<and>
   fst (queueOperation enq_full ''reports'' ''create'' ''fire report'' st_empty) =
     Inr \<lparr>success = True, resp_id = ''queue_4fzzzxjyl'',
          message = ''Operation queued for processing when online'',
          queuedOperation =
            \<lparr>item_id = ''queue_4fzzzxjyl'', resource = ''reports'', operation = ''create'',
             data = ''fire report'', timestamp = 1700000009000, attempts = 0,
             status = Pending, lastError = None\<rparr>,
          offline = True\<rparr>"
  by (simp add: queueOperation_def enq_full_def st_empty_def getQueue_def new_item_def
      queued_response_def generateId_def Let_def)

text \<open>
  Claim C2, as the code has it. When the write to the store fails, \<^verbatim>\<open>saveQueue\<close> catches
  the error and \<^verbatim>\<open>queueOperation\<close> propagates nothing: the store keeps its previous
  content and the caller receives the success-shaped response. The only throw of
  \<^verbatim>\<open>queueOperation\<close> is the generic \<^verbatim>\<open>Error\<close> raised when the stored value is
  \<^verbatim>\<open>null\<close>, whether or not the write would fail.
\<close>

theorem enqueue_write_failure_swallowed:
  "\<not> write_ok env \<Longrightarrow>
   storage (snd (queueOperation env res opn d s)) = storage s \<and>
   fst (queueOperation env res opn d s) =
     (case getQueue (storage s) of
        None \<Rightarrow> Inl (Error ''Failed to queue operation for offline processing'')
      | Some queue \<Rightarrow> Inr (queued_response (new_item env res opn d)))"
  by (simp add: queueOperation_def saveQueue_def setupNetworkListener_def Let_def
      split: option.split)

theorem enqueue_write_failure_swallowed_witness:
  "\<not> write_ok enq_full \<and>
   storage (snd (queueOperation enq_full ''events'' ''register'' ''event 7'' st_one)) =
     Json_array [item_a] \<and>
   fst (queueOperation enq_full ''events'' ''register'' ''event 7'' st_one) =
     Inr (queued_response (new_item enq_full ''events'' ''register'' ''event 7''))"
  using enqueue_write_failure_swallowed
    [of enq_full "''events''" "''register''" "''event 7''" st_one]
  by (simp add: enq_full_def st_one_def getQueue_def)

text \<open>
  Against claim C3 as stated. A call that returns normally and persists nothing: after it
  the store still holds \<open>item_a\<close> alone.
\<close>

theorem enqueue_not_persisted_on_write_failure:
  "fst (queueOperation enq_full ''events'' ''register'' ''event 7'' st_one) =
     Inr (queued_response (new_item enq_full ''events'' ''register'' ''event 7'')) \<and>
   getQueue (storage (snd (queueOperation enq_full ''events'' ''register'' ''event 7'' st_one))) =
     Some [item_a] \<and>
   new_item enq_full ''events'' ''register'' ''event 7'' \<noteq> item_a"
  by (simp add: queueOperation_def saveQueue_def setupNetworkListener_def getQueue_def
      enq_full_def st_one_def item_a_def new_item_def Let_def)

text \<open>
  Claim C3, as the code has it. When the slot is absent, unreadable or holds an array,
  \<^verbatim>\<open>queueOperation\<close> builds an item with status pending, no attempts, the generated id
  and the current time, and returns a response object that embeds the item under
  \<^verbatim>\<open>queuedOperation\<close> next to \<^verbatim>\<open>success\<close>, \<^verbatim>\<open>id\<close>, \<^verbatim>\<open>message\<close> and
  \<^verbatim>\<open>offline\<close>; when the write goes through, the store holds the previous collection
  with the item appended at its end.
\<close>

theorem enqueue_appends_pending_item:
  "getQueue (storage s) = Some queue \<Longrightarrow>
   fst (queueOperation env res opn d s) =
     Inr \<lparr>success = True, resp_id = generateId (rnd env),
          message = ''Operation queued for processing when online'',
          queuedOperation =
            \<lparr>item_id = generateId (rnd env), resource = res, operation = opn, data = d,
             timestamp = now env, attempts = 0, status = Pending, lastError = None\<rparr>,
          offline = True\<rparr> \<and>
   (write_ok env \<longrightarrow>
      storage (snd (queueOperation env res opn d s)) =
        Json_array
          (queue @
           [\<lparr>item_id = generateId (rnd env), resource = res, operation = opn, data = d,
             timestamp = now env, attempts = 0, status = Pending, lastError = None\<rparr>]))"
  by (simp add: queueOperation_def saveQueue_def setupNetworkListener_def new_item_def
      queued_response_def Let_def)

theorem enqueue_appends_pending_item_witness:
  "getQueue (storage st_one) = Some [item_a] \<and> write_ok enq2 \<and>
   fst (queueOperation enq2 ''events'' ''register'' ''event 7'' st_one) =
     Inr \<lparr>success = True, resp_id = ''queue_qc6wf58hf'',
          message = ''Operation queued for processing when online'',
          queuedOperation =
            \<lparr>item_id = ''queue_qc6wf58hf'', resource = ''events'', operation = ''register'',
             data = ''event 7'', timestamp = 1700000005000, attempts = 0, status = Pending,
             lastError = None\<rparr>,
          offline = True\<rparr> \<and>
   storage (snd (queueOperation enq2 ''events'' ''register'' ''event 7'' st_one)) =
     Json_array
       [item_a,
        \<lparr>item_id = ''queue_qc6wf58hf'', resource = ''events'', operation = ''register'',
         data = ''event 7'', timestamp = 1700000005000, attempts = 0, status = Pending,
         lastError = None\<rparr>]"
proof -
  have h: "getQueue (storage st_one) = Some [item_a]"
    by (simp add: st_one_def getQueue_def)
  show ?thesis
    using h enqueue_appends_pending_item [OF h, of enq2 "''events''" "''register''" "''event 7''"]
    by (simp add: enq2_def generateId_def)
qed

text \<open>
  Against claim C4 as stated. Two items created one after the other in one store, from
  two different random draws, with the same id.
\<close>

theorem duplicate_ids:
  "rnd enq1 \<noteq> rnd enq2 \<and>
   map item_id
     (case getQueue (storage (snd (queueOperation enq2 ''events'' ''register'' ''event 7''
         (snd (queueOperation enq1 ''reports'' ''create'' ''fire report'' st_empty))))) of
        None \<Rightarrow> [] | Some queue \<Rightarrow> queue) =
     [''queue_qc6wf58hf'', ''queue_qc6wf58hf'']"
  by (simp add: queueOperation_def saveQueue_def setupNetworkListener_def getQueue_def
      enq1_def enq2_def st_empty_def new_item_def generateId_def Let_def)

text \<open>
  Claim C4, as the code has it. The id of an item is a function of the random draw alone
  (nine characters of it at most): two items get the same id exactly when their draws
  agree on the characters at positions 2 to 10, whatever else distinguishes them. Nothing
  compares a new id with the ids already stored.
\<close>

theorem ids_equal_iff_draws_agree:
  "item_id (new_item e1 res1 opn1 d1) = item_id (new_item e2 res2 opn2 d2) \<longleftrightarrow>
   take 9 (drop 2 (rnd e1)) = take 9 (drop 2 (rnd e2))"
  by (simp add: new_item_def generateId_def)

theorem ids_equal_iff_draws_agree_witness:
  "item_id (new_item enq1 ''reports'' ''create'' ''fire report'') =
   item_id (new_item enq2 ''events'' ''register'' ''event 7'') \<and>
   item_id (new_item enq1 ''reports'' ''create'' ''fire report'') \<noteq>
   item_id (new_item enq_full ''reports'' ''create'' ''fire report'')"
  using ids_equal_iff_draws_agree [of enq1 "''reports''" "''create''" "''fire report''"
      enq2 "''events''" "''register''" "''event 7''"]
    ids_equal_iff_draws_agree [of enq1 "''reports''" "''create''" "''fire report''"
      enq_full "''reports''" "''create''" "''fire report''"]
  by (simp add: enq1_def enq2_def enq_full_def)

text \<open>
  Claim C10. Whenever \<^verbatim>\<open>queueOperation\<close> returns, the value returned has
  \<^verbatim>\<open>success: true\<close> and \<^verbatim>\<open>offline: true\<close> and carries under \<^verbatim>\<open>queuedOperation\<close>
  the item just created, still pending and never attempted: no remote call is part of
  enqueueing.
\<close>

theorem enqueue_returns_success_shaped_response:
  "fst (queueOperation env res opn d s) = Inr r \<Longrightarrow>
   success r \<and> offline r \<and> queuedOperation r = new_item env res opn d \<and>
   resp_id r = item_id (new_item env res opn d) \<and>
   status (queuedOperation r) = Pending \<and> attempts (queuedOperation r) = 0"
  by (auto simp: queueOperation_def queued_response_def new_item_def Let_def
      split: option.splits)

theorem enqueue_returns_success_shaped_response_witness:
  "fst (queueOperation enq1 ''reports'' ''create'' ''fire report'' st_empty) =
     Inr (queued_response item_a) \<and>
   success (queued_response item_a) \<and> offline (queued_response item_a) \<and>
   queuedOperation (queued_response item_a) =
     new_item enq1 ''reports'' ''create'' ''fire report''"
proof -
  have h: "fst (queueOperation enq1 ''reports'' ''create'' ''fire report'' st_empty) =
      Inr (queued_response item_a)"
    by (simp add: queueOperation_def enq1_def st_empty_def getQueue_def new_item_def
        generateId_def item_a_def Let_def)
  from enqueue_returns_success_shaped_response [OF h] h show ?thesis by simp
qed

subsection \<open>The start guard and the in-progress flag\<close>

text \<open>
  Claim C5. A run requested while \<^verbatim>\<open>isProcessing\<close> is set, or without
  authentication, returns \<^verbatim>\<open>{processed: 0, skipped: true}\<close> and leaves the whole
  module state, the persisted queue included, exactly as it was.
\<close>

theorem guard_skips_without_effect:
  "isProcessing s \<or> \<not> isAuthenticated (auth_token w) \<Longrightarrow> processQueue w s = (Skipped, s)"
  by (simp add: processQueue_def)

theorem guard_skips_without_effect_witness:
  "\<not> isAuthenticated (auth_token ((world Responds 1700000600000)\<lparr>auth_token := None\<rparr>)) \<and>
   processQueue ((world Responds 1700000600000)\<lparr>auth_token := None\<rparr>) st_one =
     (Skipped, st_one) \<and>
   isProcessing (st_one\<lparr>isProcessing := True\<rparr>) \<and>
   processQueue (world Responds 1700000600000) (st_one\<lparr>isProcessing := True\<rparr>) =
     (Skipped, st_one\<lparr>isProcessing := True\<rparr>)"
  using guard_skips_without_effect
      [of st_one "(world Responds 1700000600000)\<lparr>auth_token := None\<rparr>"]
    guard_skips_without_effect
      [of "st_one\<lparr>isProcessing := True\<rparr>" "world Responds 1700000600000"]
  by (simp add: isAuthenticated_def world_def)

text \<open>
  Against claim C9 as stated. An invocation that returns with the flag set: it arrived
  while another run was in flight and left through the guard.
\<close>

theorem skipped_run_leaves_flag_set:
  "isProcessing (snd (processQueue (world Responds 1700000600000)
     (st_one\<lparr>isProcessing := True\<rparr>)))"
  by (simp add: processQueue_def)

text \<open>
  Claim C9, as the code has it. Every invocation that finds the flag clear returns with
  the flag clear, on each of its exit paths (unauthenticated, empty queue, summary,
  internal error). An invocation that finds the flag set is skipped and leaves the state,
  flag included, as it found it: that flag belongs to the run in flight.
\<close>

theorem started_run_clears_flag:
  "(\<not> isProcessing s \<longrightarrow> \<not> isProcessing (snd (processQueue w s))) \<and>
   (isProcessing s \<longrightarrow> processQueue w s = (Skipped, s))"
  by (simp add: processQueue_def Let_def saveQueue_def split: option.split)

theorem started_run_clears_flag_witness:
  "\<not> isProcessing (st_one\<lparr>storage := Json_null\<rparr>) \<and>
   fst (processQueue (world Responds 1700000600000) (st_one\<lparr>storage := Json_null\<rparr>)) =
     Run_error ''Cannot read properties of null (reading 'length')'' \<and>
   \<not> isProcessing (snd (processQueue (world Responds 1700000600000)
     (st_one\<lparr>storage := Json_null\<rparr>)))"
  using started_run_clears_flag [of "st_one\<lparr>storage := Json_null\<rparr>"
      "world Responds 1700000600000"]
  by (simp add: processQueue_def st_one_def world_def isAuthenticated_def getQueue_def)

subsection \<open>The per-item pass\<close>

text \<open>
  Claim C1 fails on the code: the loop passes over completed items only, so an item
  already marked failed after three attempts is handed to its executor again by the next
  run. When the executor rejects, the counter reaches four; when it resolves, the item
  becomes completed.
\<close>

theorem failed_item_attempted_again:
  "processQueue (world server_error 1700000600000)
     (st_one\<lparr>storage := Json_array [item_a\<lparr>attempts := 3, status := Failed\<rparr>]\<rparr>) =
     (Summary 0 1 0,
      st_one\<lparr>storage := Json_array [item_a\<lparr>attempts := 4, status := Failed,
                  lastError := Some ''Internal Server Error''\<rparr>]\<rparr>) \<and>
   processQueue (world Responds 1700000600000)
     (st_one\<lparr>storage := Json_array [item_a\<lparr>attempts := 3, status := Failed\<rparr>]\<rparr>) =
     (Summary 1 0 0,
      st_one\<lparr>storage := Json_array [item_a\<lparr>attempts := 3, status := Completed\<rparr>]\<rparr>)"
  by (simp add: processQueue_def run_loop_def loop_body_def processQueueItem_def
      submitReport_def world_def server_error_def st_one_def item_a_def isAuthenticated_def
      getQueue_def saveQueue_def kept_def Let_def)

text \<open>
  Claim C8. In a run that passes the guard on a non-empty queue, every item that is not
  completed is handed to its executor, whatever happened to the items before it; the
  array after the loop is the specification's per-item rule applied to the outcomes of
  those calls (a rejection raises \<^verbatim>\<open>attempts\<close> by one and records the message as
  \<^verbatim>\<open>lastError\<close>, a resolution sets the status to completed); and the run ends with the
  summary, not with an error.
\<close>

theorem item_failure_does_not_abort:
  assumes "\<not> isProcessing s" and "isAuthenticated (auth_token w)"
    and "getQueue (storage s) = Some queue" and "queue \<noteq> []"
  shows "length (trace (run_loop w queue (s\<lparr>isProcessing := True\<rparr>))) =
           length (filter (\<lambda>item. status item \<noteq> Completed) queue) \<and>
         queue_done (run_loop w queue (s\<lparr>isProcessing := True\<rparr>)) =
           spec_pass queue (map snd (trace (run_loop w queue (s\<lparr>isProcessing := True\<rparr>)))) \<and>
         fst (processQueue w s) =
           Summary (successCount (run_loop w queue (s\<lparr>isProcessing := True\<rparr>)))
             (failureCount (run_loop w queue (s\<lparr>isProcessing := True\<rparr>)))
             (length (filter (\<lambda>item. status item = Pending)
                (filter (kept (sweep_now w))
                   (queue_done (run_loop w queue (s\<lparr>isProcessing := True\<rparr>))))))"
proof -
  let ?p = "run_loop w queue (s\<lparr>isProcessing := True\<rparr>)"
  have t: "map fst (trace ?p) = filter (\<lambda>item. status item \<noteq> Completed) queue"
    and d: "queue_done ?p = spec_pass queue (map snd (trace ?p))"
    using run_loop_trace [of w queue "s\<lparr>isProcessing := True\<rparr>"] by simp_all
  from t have "length (map fst (trace ?p)) =
      length (filter (\<lambda>item. status item \<noteq> Completed) queue)"
    by simp
  then have "length (trace ?p) = length (filter (\<lambda>item. status item \<noteq> Completed) queue)"
    by simp
  with d show ?thesis
    by (simp add: processQueue_started [OF assms])
qed

theorem item_failure_does_not_abort_witness:
  "\<not> isProcessing st_one \<and> isAuthenticated (auth_token mixed_world) \<and>
   map snd (trace (run_loop mixed_world [item_a, item_w, item_e]
      (st_one\<lparr>storage := Json_array [item_a, item_w, item_e], isProcessing := True\<rparr>))) =
     [Some (Thrown ''Internal Server Error'' (Some 500)),
      Some (Error ''Unknown resource: widgets''), None] \<and>
   queue_done (run_loop mixed_world [item_a, item_w, item_e]
      (st_one\<lparr>storage := Json_array [item_a, item_w, item_e], isProcessing := True\<rparr>)) =
     [item_a\<lparr>attempts := 1, lastError := Some ''Internal Server Error''\<rparr>,
      item_w\<lparr>attempts := 1, lastError := Some ''Unknown resource: widgets''\<rparr>,
      item_e\<lparr>status := Completed\<rparr>] \<and>
   fst (processQueue mixed_world (st_one\<lparr>storage := Json_array [item_a, item_w, item_e]\<rparr>)) =
     Summary 1 0 2"
  using item_failure_does_not_abort [of
      "st_one\<lparr>storage := Json_array [item_a, item_w, item_e]\<rparr>"
      mixed_world "[item_a, item_w, item_e]"]
  by (simp add: run_loop_def loop_body_def processQueueItem_def submitReport_def
      registerForEvent_def mixed_world_def st_one_def item_a_def item_w_def item_e_def
      isAuthenticated_def getQueue_def kept_def Error_def)

text \<open>
  Claim C7 fails on the code: the expiry sweep is not the only removal. The services
  replayed by the run enqueue on their own when the request meets a 503 (the comment there
  reads: queue the operation for when connectivity is restored). The replayed report is
  appended to the store once more, pending and recent enough for the sweep to keep it, and
  \<^verbatim>\<open>submitReport\<close> resolves with the queued response, so the loop marks the original
  item completed. The final \<^verbatim>\<open>saveQueue\<close> then writes the array loaded at the start of
  the run over the store: the pending item appended meanwhile is gone, and loses its place
  behind the items enqueued before it.
\<close>

theorem requeued_intent_overwritten:
  "storage (pass_state (run_loop
      (world (Rejects (Thrown ''Service Unavailable'' (Some 503))) 1700000600000)
      [item_a] (st_one\<lparr>isProcessing := True\<rparr>))) =
     Json_array [item_a, new_item enq2 ''reports'' ''create'' ''fire report''] \<and>
   status (new_item enq2 ''reports'' ''create'' ''fire report'') = Pending \<and>
   timestamp (new_item enq2 ''reports'' ''create'' ''fire report'') >
     1700000600000 - 24 * 60 * 60 * 1000 \<and>
   processQueue (world (Rejects (Thrown ''Service Unavailable'' (Some 503))) 1700000600000)
      st_one =
     (Summary 1 0 0, st_one\<lparr>storage := Json_array [item_a\<lparr>status := Completed\<rparr>]\<rparr>)"
  by (simp add: processQueue_def run_loop_def loop_body_def processQueueItem_def
      submitReport_def queueOperation_def setupNetworkListener_def world_def st_one_def
      item_a_def enq2_def isAuthenticated_def getQueue_def saveQueue_def kept_def
      new_item_def Let_def)

text \<open>
  What does hold, for the items the run loaded. In a run that passes the guard, the
  executor calls are made for the items that are not completed, in queue order. The array
  after the loop holds the same intents at the same positions, the sweep keeps every item
  of it that is not completed, and the store afterwards holds the swept array (when the
  final write goes through) or the queue as it was loaded followed by whatever was
  enqueued meanwhile (when it does not).
\<close>

theorem run_preserves_order:
  assumes "\<not> isProcessing s" and "isAuthenticated (auth_token w)"
    and "getQueue (storage s) = Some queue"
  shows "map fst (trace (run_loop w queue (s\<lparr>isProcessing := True\<rparr>))) =
           filter (\<lambda>item. status item \<noteq> Completed) queue \<and>
         map intent (queue_done (run_loop w queue (s\<lparr>isProcessing := True\<rparr>))) =
           map intent queue \<and>
         (\<forall>item \<in> set (queue_done (run_loop w queue (s\<lparr>isProcessing := True\<rparr>))).
            status item \<noteq> Completed \<longrightarrow> kept (sweep_now w) item) \<and>
         (sweep_write_ok w \<longrightarrow>
            getQueue (storage (snd (processQueue w s))) =
              Some (filter (kept (sweep_now w))
                (queue_done (run_loop w queue (s\<lparr>isProcessing := True\<rparr>))))) \<and>
         (\<not> sweep_write_ok w \<longrightarrow>
            (\<exists>extra. getQueue (storage (snd (processQueue w s))) = Some (queue @ extra)))"
proof -
  let ?s1 = "s\<lparr>isProcessing := True\<rparr>"
  let ?p = "run_loop w queue ?s1"
  have a: "map fst (trace ?p) = filter (\<lambda>item. status item \<noteq> Completed) queue"
    using run_loop_trace [of w queue ?s1] by simp
  have b: "map intent (queue_done ?p) = map intent queue"
    using run_loop_trace [of w queue ?s1] by (simp add: spec_pass_intent)
  have c: "\<forall>item \<in> set (queue_done ?p). status item \<noteq> Completed \<longrightarrow> kept (sweep_now w) item"
    by (simp add: kept_def)
  have d: "getQueue (storage (snd (processQueue w s))) =
      Some (filter (kept (sweep_now w)) (queue_done ?p))" if "sweep_write_ok w"
  proof (cases "queue = []")
    case True
    with assms show ?thesis
      by (simp add: processQueue_empty run_loop_nil)
  next
    case False
    with that show ?thesis
      by (simp add: processQueue_started [OF assms False] saveQueue_def getQueue_def)
  qed
  have e: "\<exists>extra. getQueue (storage (snd (processQueue w s))) = Some (queue @ extra)"
    if "\<not> sweep_write_ok w"
  proof (cases "queue = []")
    case True
    with assms show ?thesis
      by (simp add: processQueue_empty)
  next
    case False
    have "getQueue (storage ?s1) = Some queue"
      using assms(3) by simp
    from run_loop_storage [OF this, of w queue] that show ?thesis
      by (simp add: processQueue_started [OF assms False] saveQueue_def)
  qed
  from a b c d e show ?thesis by blast
qed

theorem run_preserves_order_witness:
  "\<not> isProcessing st_one \<and> isAuthenticated (auth_token mixed_world) \<and>
   sweep_write_ok mixed_world \<and>
   map fst (trace (run_loop mixed_world [item_a, item_a\<lparr>status := Completed\<rparr>, item_w, item_e]
      (st_one\<lparr>storage := Json_array [item_a, item_a\<lparr>status := Completed\<rparr>, item_w, item_e],
              isProcessing := True\<rparr>))) =
     [item_a, item_w, item_e] \<and>
   getQueue (storage (snd (processQueue mixed_world
      (st_one\<lparr>storage := Json_array [item_a, item_a\<lparr>status := Completed\<rparr>, item_w, item_e]\<rparr>)))) =
     Some [item_a\<lparr>attempts := 1, lastError := Some ''Internal Server Error''\<rparr>,
           item_a\<lparr>status := Completed\<rparr>,
           item_w\<lparr>attempts := 1, lastError := Some ''Unknown resource: widgets''\<rparr>,
           item_e\<lparr>status := Completed\<rparr>]"
  using run_preserves_order [of
      "st_one\<lparr>storage := Json_array [item_a, item_a\<lparr>status := Completed\<rparr>, item_w, item_e]\<rparr>"
      mixed_world "[item_a, item_a\<lparr>status := Completed\<rparr>, item_w, item_e]"]
  by (simp add: run_loop_def loop_body_def processQueueItem_def submitReport_def
      registerForEvent_def mixed_world_def st_one_def item_a_def item_w_def item_e_def
      isAuthenticated_def getQueue_def kept_def Error_def)

subsection \<open>The expiry sweep\<close>

text \<open>
  Against claim C6 as stated. A completed item created exactly 24 hours before the sweep
  is not older than 24 hours, and the sweep removes it.
\<close>

theorem sweep_boundary:
  "\<not> timestamp (item_a\<lparr>status := Completed\<rparr>) < 1700086400000 - 24 * 60 * 60 * 1000 \<and>
   processQueue (world Responds 1700086400000)
     (st_one\<lparr>storage := Json_array [item_a\<lparr>status := Completed\<rparr>]\<rparr>) =
     (Summary 0 0 0, st_one\<lparr>storage := Json_array []\<rparr>)"
  by (simp add: processQueue_def run_loop_def loop_body_def world_def st_one_def item_a_def
      isAuthenticated_def getQueue_def saveQueue_def kept_def Let_def)

text \<open>
  Claim C6, as the code has it. In a run that passes the guard on a non-empty queue, the
  sweep removes exactly the items that are completed and whose timestamp is at most the
  sweep time minus 24 hours (24 hours old or older); every other item of the array left
  by the loop is retained, in order. The result is handed to \<^verbatim>\<open>saveQueue\<close>: it becomes
  the content of the store when the write goes through, and the store is left as the loop
  left it when the write fails.
\<close>

theorem sweep_removes_old_completed:
  assumes "\<not> isProcessing s" and "isAuthenticated (auth_token w)"
    and "getQueue (storage s) = Some queue" and "queue \<noteq> []"
  shows "storage (snd (processQueue w s)) =
     (if sweep_write_ok w
      then Json_array
        (filter (\<lambda>item. \<not> (status item = Completed \<and>
                               timestamp item \<le> sweep_now w - 24 * 60 * 60 * 1000))
           (queue_done (run_loop w queue (s\<lparr>isProcessing := True\<rparr>))))
      else storage (pass_state (run_loop w queue (s\<lparr>isProcessing := True\<rparr>))))"
proof -
  let ?done = "queue_done (run_loop w queue (s\<lparr>isProcessing := True\<rparr>))"
  have eq: "filter (kept (sweep_now w)) ?done =
      filter (\<lambda>item. \<not> (status item = Completed \<and>
                             timestamp item \<le> sweep_now w - 24 * 60 * 60 * 1000)) ?done"
    by (rule filter_cong) (auto simp: kept_def)
  show ?thesis
    unfolding processQueue_started [OF assms] saveQueue_def eq by simp
qed

theorem sweep_removes_old_completed_witness:
  "\<not> isProcessing st_one \<and> isAuthenticated (auth_token (world server_error 1700090000000)) \<and>
   sweep_write_ok (world server_error 1700090000000) \<and>
   storage (snd (processQueue (world server_error 1700090000000)
     (st_one\<lparr>storage := Json_array
        [item_a\<lparr>status := Completed\<rparr>,
         item_a\<lparr>timestamp := 1700086400000, status := Completed\<rparr>,
         item_a]\<rparr>))) =
   Json_array
     [item_a\<lparr>timestamp := 1700086400000, status := Completed\<rparr>,
      item_a\<lparr>attempts := 1, lastError := Some ''Internal Server Error''\<rparr>]"
  using sweep_removes_old_completed [of
      "st_one\<lparr>storage := Json_array
        [item_a\<lparr>status := Completed\<rparr>,
         item_a\<lparr>timestamp := 1700086400000, status := Completed\<rparr>,
         item_a]\<rparr>"
      "world server_error 1700090000000"
      "[item_a\<lparr>status := Completed\<rparr>,
        item_a\<lparr>timestamp := 1700086400000, status := Completed\<rparr>,
        item_a]"]
  by (simp add: run_loop_def loop_body_def processQueueItem_def submitReport_def
      world_def server_error_def st_one_def item_a_def isAuthenticated_def getQueue_def)

end
